theory Spec2Isabelle
  imports Complex_Main "HOL-Library.Sublist"
begin

section \<open>JavaScript values and the JSON copy\<close>

text \<open>
  The adapters copy payloads with \<^verbatim>\<open>JSON.parse(JSON.stringify(x))\<close>. A payload is typed
  \<^verbatim>\<open>Record<string, any>\<close>, so its members are arbitrary JavaScript values. The model
  keeps the values that JSON treats differently: \<^verbatim>\<open>undefined\<close> (dropped from objects,
  \<^verbatim>\<open>null\<close> inside arrays, no text at all at top level), \<^verbatim>\<open>NaN\<close> and the two
  infinities (written as \<^verbatim>\<open>null\<close>) and negative zero (written as \<^verbatim>\<open>0\<close>, which
  reads back as positive zero). \<open>VNum\<close> holds every other number: a finite number is a
  rational, zero is positive zero, and JSON writes and reads such a number exactly. An
  object is the list of its own properties in enumeration order, each key once.
  Functions, symbols, dates, big integers, arrays with holes and cyclic structures are
  outside the model.

  \<open>json\<close> is a JSON document (the text, up to white space), \<open>stringify\<close> is
  \<^verbatim>\<open>JSON.stringify\<close> (\<open>None\<close> when it yields \<^verbatim>\<open>undefined\<close>) and \<open>parse\<close> is
  \<^verbatim>\<open>JSON.parse\<close> on a well-formed document.
\<close>

datatype jsval =
    VUndefined
  | VNull
  | VBool bool
  | VNum rat
  | VNegZero
  | VNaN
  | VInfinity
  | VNegInfinity
  | VStr string
  | VArr "jsval list"
  | VObj "(string \<times> jsval) list"

datatype json =
    JNull
  | JBool bool
  | JNum rat
  | JStr string
  | JArr "json list"
  | JObj "(string \<times> json) list"

fun stringify :: "jsval \<Rightarrow> json option"
  and stringify_elements :: "jsval list \<Rightarrow> json list"
  and stringify_properties :: "(string \<times> jsval) list \<Rightarrow> (string \<times> json) list" where
  "stringify VUndefined = None"
| "stringify VNull = Some JNull"
| "stringify (VBool b) = Some (JBool b)"
| "stringify (VNum n) = Some (JNum n)"
| "stringify VNegZero = Some (JNum 0)"
| "stringify VNaN = Some JNull"
| "stringify VInfinity = Some JNull"
| "stringify VNegInfinity = Some JNull"
| "stringify (VStr s) = Some (JStr s)"
| "stringify (VArr xs) = Some (JArr (stringify_elements xs))"
| "stringify (VObj ps) = Some (JObj (stringify_properties ps))"
| "stringify_elements [] = []"
| "stringify_elements (x # xs) =
     (case stringify x of None \<Rightarrow> JNull | Some j \<Rightarrow> j) # stringify_elements xs"
| "stringify_properties [] = []"
| "stringify_properties ((k, v) # ps) =
     (case stringify v of None \<Rightarrow> stringify_properties ps
      | Some j \<Rightarrow> (k, j) # stringify_properties ps)"

fun parse :: "json \<Rightarrow> jsval"
  and parse_elements :: "json list \<Rightarrow> jsval list"
  and parse_members :: "(string \<times> json) list \<Rightarrow> (string \<times> jsval) list" where
  "parse JNull = VNull"
| "parse (JBool b) = VBool b"
| "parse (JNum n) = VNum n"
| "parse (JStr s) = VStr s"
| "parse (JArr js) = VArr (parse_elements js)"
| "parse (JObj ms) = VObj (parse_members ms)"
| "parse_elements [] = []"
| "parse_elements (j # js) = parse j # parse_elements js"
| "parse_members [] = []"
| "parse_members ((k, j) # ms) = (k, parse j) # parse_members ms"

text \<open>\<^verbatim>\<open>JSON.parse(JSON.stringify(x))\<close>; \<open>None\<close> is the SyntaxError that
  \<^verbatim>\<open>JSON.parse(undefined)\<close> throws.\<close>

definition jsonCopy :: "jsval \<Rightarrow> jsval option" where
  "jsonCopy x = (case stringify x of None \<Rightarrow> None | Some j \<Rightarrow> Some (parse j))"

text \<open>Truthiness, as tested by \<^verbatim>\<open>this.cache[cacheKey]\<close> in a condition.\<close>

fun truthy :: "jsval \<Rightarrow> bool" where
  "truthy VUndefined = False"
| "truthy VNull = False"
| "truthy (VBool b) = b"
| "truthy (VNum n) = (n \<noteq> 0)"
| "truthy VNegZero = False"
| "truthy VNaN = False"
| "truthy VInfinity = True"
| "truthy VNegInfinity = True"
| "truthy (VStr s) = (s \<noteq> [])"
| "truthy (VArr xs) = True"
| "truthy (VObj ps) = True"

subsection \<open>Objects by reference\<close>

text \<open>
  Aliasing needs references. A heap is the list of the allocated cells, an address is an
  index into it, and a cell holds the whole value reachable from that reference. Every
  in-place change of an object through a reference is a \<open>mutate\<close> of its cell.
  \<^verbatim>\<open>JSON.parse\<close> and an object literal allocate a new cell.
\<close>

type_synonym addr = nat

type_synonym heap = "jsval list"

definition deref :: "heap \<Rightarrow> addr \<Rightarrow> jsval" where
  "deref h a = (if a < length h then h ! a else VUndefined)"

definition alloc :: "heap \<Rightarrow> jsval \<Rightarrow> addr \<times> heap" where
  "alloc h v = (length h, h @ [v])"

definition mutate :: "heap \<Rightarrow> addr \<Rightarrow> jsval \<Rightarrow> heap" where
  "mutate h a v = (if a < length h then h[a := v] else h)"

section \<open>SimpleCache (src/utils/cache.ts)\<close>

text \<open>\<^verbatim>\<open>Date.now()\<close> is the parameter \<open>now\<close>, in milliseconds. An omitted
  \<^verbatim>\<open>maxAge\<close> is \<open>None\<close>.\<close>

record 'v cache_item =
  item_value :: 'v
  item_expiry :: "int option"

record ('k, 'v) SimpleCache =
  items :: "'k \<rightharpoonup> 'v cache_item"
  defaultMaxAge :: int

definition SimpleCache_new :: "int \<Rightarrow> ('k, 'v) SimpleCache" where
  "SimpleCache_new maxAge = \<lparr>items = Map.empty, defaultMaxAge = maxAge\<rparr>"

definition cache_set ::
  "('k, 'v) SimpleCache \<Rightarrow> int \<Rightarrow> 'k \<Rightarrow> 'v \<Rightarrow> int option \<Rightarrow> ('k, 'v) SimpleCache" where
  "cache_set c now key v maxAge =
     (let expiryMs = (case maxAge of Some m \<Rightarrow> m | None \<Rightarrow> defaultMaxAge c);
          expiry = (if expiryMs > 0 then Some (now + expiryMs) else None)
      in c\<lparr>items := (items c)(key \<mapsto> \<lparr>item_value = v, item_expiry = expiry\<rparr>)\<rparr>)"

definition cache_get ::
  "('k, 'v) SimpleCache \<Rightarrow> int \<Rightarrow> 'k \<Rightarrow> 'v option \<times> ('k, 'v) SimpleCache" where
  "cache_get c now key =
     (case items c key of
        None \<Rightarrow> (None, c)
      | Some item \<Rightarrow>
          (case item_expiry item of
             Some e \<Rightarrow>
               if e < now then (None, c\<lparr>items := (items c)(key := None)\<rparr>)
               else (Some (item_value item), c)
           | None \<Rightarrow> (Some (item_value item), c)))"

section \<open>HttpAdapter (storage/http-adapter.ts)\<close>

subsection \<open>Errors\<close>

datatype HttpErrorType = NETWORK | TIMEOUT | AUTH | NOT_FOUND | SERVER | PARSE | UNKNOWN

text \<open>
  The values that are thrown before the adapter classifies them. The two tests of
  \<^verbatim>\<open>fetchWithTimeout\<close> on a caught value are \<^verbatim>\<open>instanceof DOMException\<close> with the
  name AbortError, and \<^verbatim>\<open>instanceof TypeError\<close> with a message matching
  \<^verbatim>\<open>/fetch|network/i\<close>; \<open>AbortError\<close> and \<open>NetworkTypeError\<close> are the values that
  pass them, \<open>OtherError\<close> is any other thrown value with its message (empty when it has
  none). \<open>TimeoutError\<close> is the Error that the adapter makes for an aborted attempt,
  \<open>SavingNotAllowed\<close> the Error of \<^verbatim>\<open>persistResource\<close> when saving is disabled, and
  \<open>SyntaxError\<close> what \<^verbatim>\<open>response.json()\<close> and \<^verbatim>\<open>JSON.parse\<close> reject with.
\<close>

datatype js_error =
    AbortError
  | NetworkTypeError string
  | OtherError string
  | TimeoutError int
  | SyntaxError
  | SavingNotAllowed

text \<open>The message texts of the source, by name.\<close>

datatype message =
    LoadFailed int
  | SaveFailed int
  | ParseFailed
  | ConnectionFailed
  | TimedOut int
  | UnknownFailure
  | Text string

record HttpAdapterError =
  type :: HttpErrorType
  message :: message
  url :: string
  status :: "int option"
  retryable :: bool
  originalError :: "js_error option"

datatype thrown = Raw js_error | Structured HttpAdapterError

text \<open>A call of a caller-supplied asynchronous function: it returns a promise that
  fulfils (\<open>Returns\<close>) or rejects (\<open>Rejects\<close>), or it throws before returning one
  (\<open>Throws\<close>).\<close>

datatype 'a outcome = Returns 'a | Throws thrown | Rejects thrown

definition isRetryableStatusCode :: "int \<Rightarrow> bool" where
  "isRetryableStatusCode statusCode = (statusCode \<ge> 500 \<or> statusCode = 429)"

definition createHttpError :: "int \<Rightarrow> message \<Rightarrow> string \<Rightarrow> HttpAdapterError" where
  "createHttpError statusCode msg u =
     (let (ty, r) =
            (if statusCode = 404 then (NOT_FOUND, False)
             else if statusCode = 401 \<or> statusCode = 403 then (AUTH, False)
             else if statusCode \<ge> 500 then (SERVER, True)
             else (UNKNOWN, False))
      in \<lparr>type = ty, message = msg, url = u, status = Some statusCode, retryable = r,
          originalError = None\<rparr>)"

text \<open>\<^verbatim>\<open>error.message || '...'\<close>: the message of a thrown value, or the text for an
  unknown error when it is empty. The texts of the last three equations stand for the
  messages that those values carry.\<close>

fun error_message :: "js_error \<Rightarrow> message" where
  "error_message (TimeoutError t) = TimedOut t"
| "error_message (NetworkTypeError m) = (if m = [] then UnknownFailure else Text m)"
| "error_message (OtherError m) = (if m = [] then UnknownFailure else Text m)"
| "error_message AbortError = Text ''The operation was aborted''"
| "error_message SyntaxError = Text ''Unexpected token''"
| "error_message SavingNotAllowed = Text ''allowSaving''"

definition createError ::
  "js_error \<Rightarrow> string \<Rightarrow> HttpErrorType \<Rightarrow> message option \<Rightarrow> HttpAdapterError" where
  "createError error u ty customMessage =
     (let msg0 = (case customMessage of Some m \<Rightarrow> m | None \<Rightarrow> error_message error);
          (r, msg) =
            (if ty = TIMEOUT then (True, msg0)
             else if ty = NETWORK then
               (True, case customMessage of Some m \<Rightarrow> m | None \<Rightarrow> ConnectionFailed)
             else if ty = PARSE then
               (False, case customMessage of Some m \<Rightarrow> m | None \<Rightarrow> ParseFailed)
             else (False, msg0))
      in \<lparr>type = ty, message = msg, url = u, status = None, retryable = r,
          originalError = Some error\<rparr>)"

subsection \<open>Requests, responses and options\<close>

text \<open>A response is its status and what \<^verbatim>\<open>response.json()\<close> resolves to (\<open>None\<close>
  when the body is not JSON and the promise rejects). \<^verbatim>\<open>response.ok\<close> is the status
  range 200 to 299.\<close>

record response =
  resp_status :: int
  resp_json :: "jsval option"

definition ok :: "response \<Rightarrow> bool" where
  "ok r = (200 \<le> resp_status r \<and> resp_status r \<le> 299)"

record request =
  req_url :: string
  req_method :: string
  req_headers :: "string \<rightharpoonup> string"
  req_body :: "json option"

text \<open>The merged options of the constructor (defaults overridden by the caller's).
  \<open>defaultOptions base\<close> are the options of an adapter made with nothing but a base URL,
  which the constructor ends with a slash.\<close>

record options =
  cacheEnabled :: bool
  baseUrl :: string
  resourcePathTemplate :: string
  languagesUrl :: string
  namespacesUrl :: string
  getMethod :: string
  saveMethod :: string
  headers :: "string \<rightharpoonup> string"
  timeout :: int
  allowSaving :: bool
  getResourceUrlFn :: "(string \<Rightarrow> string \<Rightarrow> string \<Rightarrow> thrown + string) option"
  parseResponseFn :: "(response \<Rightarrow> jsval outcome) option"
  handleErrorFn :: "(thrown \<Rightarrow> string \<Rightarrow> string \<Rightarrow> jsval outcome) option"
  maxRetries :: int
  retryDelay :: int
  useExponentialBackoff :: bool
  autoHandleStatusErrors :: bool

definition defaultOptions :: "string \<Rightarrow> options" where
  "defaultOptions base =
     \<lparr>cacheEnabled = True,
      baseUrl = (if suffix ''/'' base then base else base @ ''/''),
      resourcePathTemplate = ''resources/{{lang}}/{{ns}}'',
      languagesUrl = ''languages'',
      namespacesUrl = ''namespaces'',
      getMethod = ''GET'',
      saveMethod = ''PUT'',
      headers = Map.empty,
      timeout = 5000,
      allowSaving = False,
      getResourceUrlFn = None,
      parseResponseFn = None,
      handleErrorFn = None,
      maxRetries = 3,
      retryDelay = 300,
      useExponentialBackoff = True,
      autoHandleStatusErrors = True\<rparr>"

subsection \<open>The state and the network\<close>

text \<open>
  \<open>cache\<close> is the adapter's \<^verbatim>\<open>cache\<close> object (keys to references), \<open>heap\<close> the objects,
  \<open>fetched\<close> the calls of \<^verbatim>\<open>fetch\<close> made so far and \<open>waits\<close> the delays slept
  between attempts, both oldest first. Every cache key holds a dot, so no lookup reaches a
  property inherited from \<^verbatim>\<open>Object.prototype\<close>.

  The network is a function from the number of calls made before and the request to what
  \<^verbatim>\<open>fetch\<close> does: it resolves with a response, or it rejects (an abort by the
  per-attempt timer is the rejection \<open>AbortError\<close>).
\<close>

record world =
  cache :: "string \<rightharpoonup> addr"
  heap :: heap
  fetched :: "request list"
  waits :: "int list"

datatype fetch_result = Responds response | Fails js_error

type_synonym network = "nat \<Rightarrow> request \<Rightarrow> fetch_result"

definition init_world :: world where
  "init_world = \<lparr>cache = Map.empty, heap = [], fetched = [], waits = []\<rparr>"

subsection \<open>URL construction\<close>

text \<open>Strings are byte sequences (UTF-8), so \<^verbatim>\<open>encodeURIComponent\<close> escapes every
  byte that is not an unreserved character.\<close>

definition unreserved :: "char \<Rightarrow> bool" where
  "unreserved c =
     (c \<in> set ''ABCDEFGHIJKLMNOPQRSTUVWXYZabcdefghijklmnopqrstuvwxyz0123456789-_.!~*()''
      \<or> c = CHR 0x27)"

definition hexdigit :: "nat \<Rightarrow> char" where
  "hexdigit n = ''0123456789ABCDEF'' ! (n mod 16)"

definition encodeURIComponent :: "string \<Rightarrow> string" where
  "encodeURIComponent s =
     concat (map (\<lambda>c. if unreserved c then [c]
                       else [CHR ''%'', hexdigit (of_char c div 16), hexdigit (of_char c)]) s)"

text \<open>\<^verbatim>\<open>path.replace(/pat/g, rep)\<close> for a literal, non-empty \<open>pat\<close> and a
  replacement without dollar signs: every occurrence, left to right, not overlapping.\<close>

fun replaceAll :: "string \<Rightarrow> string \<Rightarrow> string \<Rightarrow> string" where
  "replaceAll pat rep [] = []"
| "replaceAll pat rep (c # cs) =
     (if pat \<noteq> [] \<and> prefix pat (c # cs)
      then rep @ replaceAll pat rep (drop (length pat - 1) cs)
      else c # replaceAll pat rep cs)"

definition getResourceUrl :: "options \<Rightarrow> string \<Rightarrow> string \<Rightarrow> thrown + string" where
  "getResourceUrl opts lang ns =
     (case getResourceUrlFn opts of
        Some f \<Rightarrow> f lang ns (baseUrl opts)
      | None \<Rightarrow>
          (let path = resourcePathTemplate opts;
               path = replaceAll ''{{lang}}'' (encodeURIComponent lang) path;
               path = replaceAll ''{{ns}}'' (encodeURIComponent ns) path
           in Inr (baseUrl opts @ path)))"

subsection \<open>fetchWithTimeout\<close>

text \<open>
  One call is one attempt: the request is sent and logged; a retry logs the delay it
  sleeps and calls itself with one retry less and the next delay. The recursive call is
  returned without \<^verbatim>\<open>await\<close>, so what it throws is not caught again by the caller's
  frame. \<open>Inl\<close> is the rejection of the returned promise.
\<close>

function fetchWithTimeout ::
  "network \<Rightarrow> options \<Rightarrow> world \<Rightarrow> request \<Rightarrow> int \<Rightarrow> int \<Rightarrow> (thrown + response) \<times> world" where
  "fetchWithTimeout net opts w req retries delay =
     (let w1 = w\<lparr>fetched := fetched w @ [req]\<rparr>;
          nextDelay = (if useExponentialBackoff opts then delay * 2 else delay)
      in case net (length (fetched w)) req of
           Responds r \<Rightarrow>
             if autoHandleStatusErrors opts \<and> \<not> ok r \<and> retries > 0
                \<and> isRetryableStatusCode (resp_status r)
             then fetchWithTimeout net opts (w1\<lparr>waits := waits w1 @ [delay]\<rparr>) req
                    (retries - 1) nextDelay
             else (Inr r, w1)
         | Fails error \<Rightarrow>
             (let isTimeoutError = (error = AbortError);
                  isNetworkError = (case error of NetworkTypeError m \<Rightarrow> True | _ \<Rightarrow> False)
              in if (isTimeoutError \<or> isNetworkError) \<and> retries > 0
                 then fetchWithTimeout net opts (w1\<lparr>waits := waits w1 @ [delay]\<rparr>) req
                        (retries - 1) nextDelay
                 else if isTimeoutError
                 then (Inl (Structured
                         (createError (TimeoutError (timeout opts)) (req_url req) TIMEOUT None)),
                       w1)
                 else (Inl (Structured
                         (createError error (req_url req)
                            (if isNetworkError then NETWORK else UNKNOWN) None)),
                       w1)))"
  by pat_completeness auto
termination
  by (relation "measure (\<lambda>(net, opts, w, req, retries, delay). nat retries)") auto

text \<open>The default arguments \<^verbatim>\<open>this.options.maxRetries || 3\<close> and
  \<^verbatim>\<open>this.options.retryDelay || 300\<close>: a zero option is falsy and takes the default.\<close>

definition defaultRetries :: "options \<Rightarrow> int" where
  "defaultRetries opts = (if maxRetries opts = 0 then 3 else maxRetries opts)"

definition defaultDelay :: "options \<Rightarrow> int" where
  "defaultDelay opts = (if retryDelay opts = 0 then 300 else retryDelay opts)"

definition fetchWithTimeout0 ::
  "network \<Rightarrow> options \<Rightarrow> world \<Rightarrow> request \<Rightarrow> (thrown + response) \<times> world" where
  "fetchWithTimeout0 net opts w req =
     fetchWithTimeout net opts w req (defaultRetries opts) (defaultDelay opts)"

subsection \<open>The list endpoints\<close>

text \<open>Both functions catch everything and return the empty array then. The result is
  the array's elements.\<close>

definition getLanguages :: "network \<Rightarrow> options \<Rightarrow> world \<Rightarrow> jsval list \<times> world" where
  "getLanguages net opts w =
     (let u = baseUrl opts @ languagesUrl opts
      in case fetchWithTimeout0 net opts w
                \<lparr>req_url = u, req_method = getMethod opts, req_headers = headers opts,
                 req_body = None\<rparr> of
           (Inl error, w1) \<Rightarrow> ([], w1)
         | (Inr r, w1) \<Rightarrow>
             if \<not> ok r then ([], w1)
             else (case resp_json r of
                     None \<Rightarrow> ([], w1)
                   | Some (VArr xs) \<Rightarrow> (xs, w1)
                   | Some (VObj ps) \<Rightarrow>
                       (case map_of ps ''languages'' of
                          Some (VArr xs) \<Rightarrow> (xs, w1)
                        | _ \<Rightarrow> ([], w1))
                   | Some _ \<Rightarrow> ([], w1)))"

definition getNamespaces :: "network \<Rightarrow> options \<Rightarrow> world \<Rightarrow> jsval list \<times> world" where
  "getNamespaces net opts w =
     (let u = baseUrl opts @ namespacesUrl opts
      in case fetchWithTimeout0 net opts w
                \<lparr>req_url = u, req_method = getMethod opts, req_headers = headers opts,
                 req_body = None\<rparr> of
           (Inl error, w1) \<Rightarrow> ([], w1)
         | (Inr r, w1) \<Rightarrow>
             if \<not> ok r then ([], w1)
             else (case resp_json r of
                     None \<Rightarrow> ([], w1)
                   | Some (VArr xs) \<Rightarrow> (xs, w1)
                   | Some (VObj ps) \<Rightarrow>
                       (case map_of ps ''namespaces'' of
                          Some (VArr xs) \<Rightarrow> (xs, w1)
                        | _ \<Rightarrow> ([], w1))
                   | Some _ \<Rightarrow> ([], w1)))"

subsection \<open>loadResource and persistResource\<close>

text \<open>
  \<open>handleLoadError\<close> is the \<^verbatim>\<open>catch\<close> block of \<^verbatim>\<open>loadResource\<close>: the custom handler's
  promise is returned as it is (its rejection, or what the handler throws, rejects
  \<^verbatim>\<open>loadResource\<close>); without a handler the result is the empty object.
\<close>

definition handleLoadError ::
  "options \<Rightarrow> thrown \<Rightarrow> string \<Rightarrow> string \<Rightarrow> thrown + jsval" where
  "handleLoadError opts error lang ns =
     (case handleErrorFn opts of
        Some h \<Rightarrow>
          (case h error lang ns of
             Returns v \<Rightarrow> Inr v
           | Throws e \<Rightarrow> Inl e
           | Rejects e \<Rightarrow> Inl e)
      | None \<Rightarrow> Inr (VObj []))"

text \<open>
  The custom parser's promise is returned from inside \<^verbatim>\<open>try\<close> without
  \<^verbatim>\<open>await\<close>: what the parser throws is caught, a rejection of its promise is not.
\<close>

definition loadResource ::
  "network \<Rightarrow> options \<Rightarrow> world \<Rightarrow> string \<Rightarrow> string \<Rightarrow> (thrown + jsval) \<times> world" where
  "loadResource net opts w lang ns =
     (case getResourceUrl opts lang ns of
        Inl e \<Rightarrow> (handleLoadError opts e lang ns, w)
      | Inr u \<Rightarrow>
          (case fetchWithTimeout0 net opts w
                  \<lparr>req_url = u, req_method = getMethod opts, req_headers = headers opts,
                   req_body = None\<rparr> of
             (Inl e, w1) \<Rightarrow> (handleLoadError opts e lang ns, w1)
           | (Inr r, w1) \<Rightarrow>
               if \<not> ok r
               then (handleLoadError opts
                       (Structured (createHttpError (resp_status r) (LoadFailed (resp_status r)) u))
                       lang ns, w1)
               else (case parseResponseFn opts of
                       Some p \<Rightarrow>
                         (case p r of
                            Returns v \<Rightarrow> (Inr v, w1)
                          | Throws e \<Rightarrow> (handleLoadError opts e lang ns, w1)
                          | Rejects e \<Rightarrow> (Inl e, w1))
                     | None \<Rightarrow>
                         (case resp_json r of
                            Some v \<Rightarrow> (Inr v, w1)
                          | None \<Rightarrow>
                              (handleLoadError opts
                                 (Structured (createError SyntaxError u PARSE (Some ParseFailed)))
                                 lang ns, w1)))))"

definition persistResource ::
  "network \<Rightarrow> options \<Rightarrow> world \<Rightarrow> string \<Rightarrow> string \<Rightarrow> jsval \<Rightarrow> (thrown + unit) \<times> world" where
  "persistResource net opts w lang ns data =
     (if \<not> allowSaving opts then (Inl (Raw SavingNotAllowed), w)
      else (case getResourceUrl opts lang ns of
              Inl e \<Rightarrow> (Inl e, w)
            | Inr u \<Rightarrow>
                (case fetchWithTimeout0 net opts w
                        \<lparr>req_url = u, req_method = saveMethod opts,
                         req_headers =
                           [''Content-Type'' \<mapsto> ''application/json''] ++ headers opts,
                         req_body = stringify data\<rparr> of
                   (Inl e, w1) \<Rightarrow> (Inl e, w1)
                 | (Inr r, w1) \<Rightarrow>
                     if \<not> ok r
                     then (Inl (Structured
                             (createHttpError (resp_status r) (SaveFailed (resp_status r)) u)),
                           w1)
                     else (Inr (), w1))))"

section \<open>BaseStorageAdapter (storage/storage-adapter.ts)\<close>

definition getCacheKey :: "string \<Rightarrow> string \<Rightarrow> string" where
  "getCacheKey lang ns = lang @ ''.'' @ ns"

text \<open>\<^verbatim>\<open>this.cache[cacheKey]\<close>: the cached value, \<^verbatim>\<open>undefined\<close> for a missing key.\<close>

definition cached :: "world \<Rightarrow> string \<Rightarrow> jsval" where
  "cached w key = (case cache w key of None \<Rightarrow> VUndefined | Some a \<Rightarrow> deref (heap w) a)"

text \<open>\<open>fresh w v\<close> puts a new object \<open>v\<close> on the heap and gives its reference.\<close>

definition fresh :: "world \<Rightarrow> jsval \<Rightarrow> addr \<times> world" where
  "fresh w v = (case alloc (heap w) v of (a, h) \<Rightarrow> (a, w\<lparr>heap := h\<rparr>))"

text \<open>
  \<open>getResource\<close> returns the reference of the payload it hands out. The copy on the hit
  path is outside \<^verbatim>\<open>try\<close>; every failure after the cache test ends in the
  \<^verbatim>\<open>catch\<close> block, which returns a new empty object.
\<close>

definition getResource ::
  "network \<Rightarrow> options \<Rightarrow> world \<Rightarrow> string \<Rightarrow> string \<Rightarrow> (thrown + addr) \<times> world" where
  "getResource net opts w lang ns =
     (let cacheKey = getCacheKey lang ns
      in if cacheEnabled opts \<and> truthy (cached w cacheKey)
         then (case jsonCopy (cached w cacheKey) of
                 None \<Rightarrow> (Inl (Raw SyntaxError), w)
               | Some v \<Rightarrow> (case fresh w v of (a, w1) \<Rightarrow> (Inr a, w1)))
         else (case loadResource net opts w lang ns of
                 (Inl e, w1) \<Rightarrow> (case fresh w1 (VObj []) of (a, w2) \<Rightarrow> (Inr a, w2))
               | (Inr resources, w1) \<Rightarrow>
                   (case jsonCopy resources of
                      None \<Rightarrow> (case fresh w1 (VObj []) of (a, w2) \<Rightarrow> (Inr a, w2))
                    | Some v \<Rightarrow>
                        (let w2 = (if cacheEnabled opts
                                   then (case fresh w1 v of
                                           (c, w') \<Rightarrow> w'\<lparr>cache := (cache w')(cacheKey \<mapsto> c)\<rparr>)
                                   else w1)
                         in case fresh w2 v of (a, w3) \<Rightarrow> (Inr a, w3)))))"

definition saveResource ::
  "network \<Rightarrow> options \<Rightarrow> world \<Rightarrow> string \<Rightarrow> string \<Rightarrow> jsval \<Rightarrow> (thrown + unit) \<times> world" where
  "saveResource net opts w lang ns data =
     (case persistResource net opts w lang ns data of
        (Inl e, w1) \<Rightarrow> (Inl e, w1)
      | (Inr u, w1) \<Rightarrow>
          if cacheEnabled opts
          then (case jsonCopy data of
                  None \<Rightarrow> (Inl (Raw SyntaxError), w1)
                | Some v \<Rightarrow>
                    (case fresh w1 v of
                       (c, w2) \<Rightarrow>
                         (Inr (), w2\<lparr>cache := (cache w2)(getCacheKey lang ns \<mapsto> c)\<rparr>)))
          else (Inr (), w1))"

text \<open>An optional string argument is truthy when it is given and not empty.\<close>

definition given :: "string option \<Rightarrow> bool" where
  "given s = (case s of None \<Rightarrow> False | Some t \<Rightarrow> t \<noteq> [])"

definition clearCache :: "world \<Rightarrow> string option \<Rightarrow> string option \<Rightarrow> world" where
  "clearCache w lang ns =
     (if given lang \<and> given ns
      then w\<lparr>cache := (cache w)(getCacheKey (the lang) (the ns) := None)\<rparr>
      else if given lang
      then w\<lparr>cache := (\<lambda>key. if prefix (the lang @ ''.'') key then None else cache w key)\<rparr>
      else w\<lparr>cache := Map.empty\<rparr>)"

section \<open>Scenarios used in the statements\<close>

text \<open>The caller-supplied functions of the options are taken to be pure: they do not
  touch the adapter's state.\<close>

text \<open>The conditions under which \<^verbatim>\<open>fetchWithTimeout\<close> retries: a response that is not
  ok with a retryable status while status handling is on, or a rejection that passes the
  timeout test or the network test.\<close>

definition retryable_failure :: "options \<Rightarrow> fetch_result \<Rightarrow> bool" where
  "retryable_failure opts fr =
     (case fr of
        Responds r \<Rightarrow>
          autoHandleStatusErrors opts \<and> \<not> ok r \<and> isRetryableStatusCode (resp_status r)
      | Fails error \<Rightarrow>
          error = AbortError \<or> (case error of NetworkTypeError m \<Rightarrow> True | _ \<Rightarrow> False))"

text \<open>What a caller of \<^verbatim>\<open>fetchWithTimeout\<close> treats as a failed fetch: a rejection,
  or a response that is not ok.\<close>

definition is_failure :: "thrown + response \<Rightarrow> bool" where
  "is_failure res = (case res of Inl e \<Rightarrow> True | Inr r \<Rightarrow> \<not> ok r)"

text \<open>The request that \<^verbatim>\<open>loadResource\<close>, \<^verbatim>\<open>getLanguages\<close> and
  \<^verbatim>\<open>getNamespaces\<close> send to the URL \<open>u\<close>.\<close>

definition getRequest :: "options \<Rightarrow> string \<Rightarrow> request" where
  "getRequest opts u =
     \<lparr>req_url = u, req_method = getMethod opts, req_headers = headers opts, req_body = None\<rparr>"

text \<open>The fetch of a resource fails: the URL cannot be built, or the transport ends, after
  its retries, in a failure.\<close>

definition load_fails :: "network \<Rightarrow> options \<Rightarrow> world \<Rightarrow> string \<Rightarrow> string \<Rightarrow> bool" where
  "load_fails net opts w lang ns =
     (case getResourceUrl opts lang ns of
        Inl e \<Rightarrow> True
      | Inr u \<Rightarrow> is_failure (fst (fetchWithTimeout0 net opts w (getRequest opts u))))"

text \<open>A list endpoint fails: the transport ends in a failure, or the body of the response
  is not JSON.\<close>

definition list_fails :: "network \<Rightarrow> options \<Rightarrow> world \<Rightarrow> string \<Rightarrow> bool" where
  "list_fails net opts w u =
     (case fst (fetchWithTimeout0 net opts w (getRequest opts u)) of
        Inl e \<Rightarrow> True
      | Inr r \<Rightarrow> (if ok r then resp_json r = None else True))"

text \<open>\<open>n\<close> calls of \<open>getResource\<close> for the same pair, one after the other.\<close>

fun getResourceRepeat ::
  "nat \<Rightarrow> network \<Rightarrow> options \<Rightarrow> world \<Rightarrow> string \<Rightarrow> string
     \<Rightarrow> (thrown + addr) list \<times> world" where
  "getResourceRepeat 0 net opts w lang ns = ([], w)"
| "getResourceRepeat (Suc n) net opts w lang ns =
     (case getResource net opts w lang ns of
        (r, w1) \<Rightarrow>
          (case getResourceRepeat n net opts w1 lang ns of
             (rs, w2) \<Rightarrow> (r # rs, w2)))"


text \<open>Every reference in the cache is allocated. It holds at the start and every
  operation keeps it.\<close>

definition cache_wf :: "world \<Rightarrow> bool" where
  "cache_wf w = (\<forall>k c. cache w k = Some c \<longrightarrow> c < length (heap w))"

section \<open>Properties\<close>

declare fetchWithTimeout.simps [simp del]

subsection \<open>The JSON copy and the heap\<close>



lemma truthy_jsonCopy: "truthy v \<Longrightarrow> \<exists>v'. jsonCopy v = Some v'"
  by (cases v) (simp_all add: jsonCopy_def)






text \<open>An infinity comes back as \<^verbatim>\<open>null\<close> and negative zero as positive zero.\<close>

lemma jsonCopy_infinity_negative_zero:
  "jsonCopy (VObj [(''a'', VInfinity), (''d'', VNegZero)])
     = Some (VObj [(''a'', VNull), (''d'', VNum 0)])"
  by (simp add: jsonCopy_def)

lemma jsonCopy_empty: "jsonCopy (VObj []) = Some (VObj [])"
  by (simp add: jsonCopy_def)

lemma deref_mutate_other: "b \<noteq> a \<Longrightarrow> deref (mutate h a x) b = deref h b"
  by (simp add: deref_def mutate_def)

lemma cached_extend:
  "truthy (cached w key) \<Longrightarrow> cached (w\<lparr>heap := heap w @ hs\<rparr>) key = cached w key"
  by (auto simp: cached_def deref_def nth_append split: option.splits if_splits)

lemma deref_extend: "b < length h \<Longrightarrow> deref (h @ hs) b = deref h b"
  by (simp add: deref_def nth_append)

lemma cached_extend_wf:
  assumes "cache_wf w"
  shows "cached (w\<lparr>heap := heap w @ hs\<rparr>) k = cached w k"
proof (cases "cache w k")
  case None
  then show ?thesis by (simp add: cached_def)
next
  case (Some c)
  then have "c < length (heap w)" using assms by (simp add: cache_wf_def)
  then show ?thesis using Some by (simp add: cached_def deref_def nth_append)
qed

lemma cached_mutate_fresh:
  assumes "\<forall>k c. cache w k = Some c \<longrightarrow> c \<noteq> a"
  shows "cached (w\<lparr>heap := mutate (heap w) a x\<rparr>) k = cached w k"
  using assms by (auto simp: cached_def deref_mutate_other split: option.splits)

subsection \<open>One attempt of the transport\<close>

lemma fetch_retry_step:
  assumes "retryable_failure opts (net (length (fetched w)) req)" and "retries > 0"
  shows "fetchWithTimeout net opts w req retries delay =
         fetchWithTimeout net opts
           (w\<lparr>fetched := fetched w @ [req], waits := waits w @ [delay]\<rparr>) req (retries - 1)
           (if useExponentialBackoff opts then delay * 2 else delay)"
  using assms
  by (subst fetchWithTimeout.simps)
     (auto simp: retryable_failure_def Let_def split: fetch_result.splits js_error.splits)

lemma fetch_last_step:
  assumes "retryable_failure opts (net (length (fetched w)) req)" and "retries \<le> 0"
  shows "\<exists>res. fetchWithTimeout net opts w req retries delay =
           (res, w\<lparr>fetched := fetched w @ [req]\<rparr>)
         \<and> (case res of
              Inl e \<Rightarrow> \<exists>err. e = Structured err \<and> retryable err
                         \<and> (type err = TIMEOUT \<or> type err = NETWORK)
            | Inr r \<Rightarrow> net (length (fetched w)) req = Responds r \<and> \<not> ok r)"
  using assms
  by (subst fetchWithTimeout.simps)
     (auto simp: retryable_failure_def createError_def Let_def
        split: fetch_result.splits js_error.splits)

lemma fetch_no_retry:
  assumes "net (length (fetched w)) req = Responds r"
    and "\<not> isRetryableStatusCode (resp_status r)"
  shows "fetchWithTimeout net opts w req retries delay =
           (Inr r, w\<lparr>fetched := fetched w @ [req]\<rparr>)"
  using assms
  by (subst fetchWithTimeout.simps) (simp add: Let_def)

lemma fetch_step_or_stop:
  "(retries > 0
     \<and> fetchWithTimeout net opts w req retries delay =
         fetchWithTimeout net opts
           (w\<lparr>fetched := fetched w @ [req], waits := waits w @ [delay]\<rparr>) req (retries - 1)
           (if useExponentialBackoff opts then delay * 2 else delay))
   \<or> (\<exists>res. fetchWithTimeout net opts w req retries delay =
               (res, w\<lparr>fetched := fetched w @ [req]\<rparr>))"
  by (subst (1 3) fetchWithTimeout.simps)
     (simp add: Let_def split: fetch_result.splits)

text \<open>The transport leaves the cache and the heap alone and sends at least one request.\<close>

lemma fetch_frame:
  "fetchWithTimeout net opts w req retries delay = (res, w') \<Longrightarrow>
   cache w' = cache w \<and> heap w' = heap w \<and> length (fetched w) < length (fetched w')"
proof (induction "nat retries" arbitrary: retries w delay rule: less_induct)
  case less
  let ?w1 = "w\<lparr>fetched := fetched w @ [req], waits := waits w @ [delay]\<rparr>"
  let ?d = "if useExponentialBackoff opts then delay * 2 else delay"
  from fetch_step_or_stop [of retries net opts w req delay]
  show ?case
  proof
    assume a: "retries > 0
     \<and> fetchWithTimeout net opts w req retries delay =
         fetchWithTimeout net opts ?w1 req (retries - 1) ?d"
    then have "fetchWithTimeout net opts ?w1 req (retries - 1) ?d = (res, w')"
      using less.prems by simp
    moreover have "nat (retries - 1) < nat retries" using a by simp
    ultimately have "cache w' = cache ?w1 \<and> heap w' = heap ?w1
        \<and> length (fetched ?w1) < length (fetched w')"
      using less.hyps by blast
    then show ?thesis by simp
  next
    assume "\<exists>r. fetchWithTimeout net opts w req retries delay =
               (r, w\<lparr>fetched := fetched w @ [req]\<rparr>)"
    then show ?thesis using less.prems by auto
  qed
qed

lemma fetch0_frame:
  "fetchWithTimeout0 net opts w req = (res, w') \<Longrightarrow>
   cache w' = cache w \<and> heap w' = heap w \<and> length (fetched w) < length (fetched w')"
  unfolding fetchWithTimeout0_def by (rule fetch_frame)

subsection \<open>Loading, saving and the cache\<close>

lemma loadResource_frame:
  assumes "loadResource net opts w lang ns = (res, w1)"
  shows "cache w1 = cache w \<and> heap w1 = heap w"
proof (cases "getResourceUrl opts lang ns")
  case (Inl e)
  then show ?thesis using assms by (simp add: loadResource_def)
next
  case (Inr u)
  obtain r w' where f: "fetchWithTimeout0 net opts w
      \<lparr>req_url = u, req_method = getMethod opts, req_headers = headers opts,
       req_body = None\<rparr> = (r, w')"
    by (cases "fetchWithTimeout0 net opts w
      \<lparr>req_url = u, req_method = getMethod opts, req_headers = headers opts,
       req_body = None\<rparr>") auto
  have "w1 = w'"
    using assms Inr f
    by (auto simp: loadResource_def split: sum.splits if_splits option.splits outcome.splits)
  then show ?thesis using fetch0_frame [OF f] by simp
qed

lemma loadResource_fails:
  assumes "handleErrorFn opts = None" and "load_fails net opts w lang ns"
  shows "\<exists>w1. loadResource net opts w lang ns = (Inr (VObj []), w1)"
proof (cases "getResourceUrl opts lang ns")
  case (Inl e)
  then show ?thesis using assms by (simp add: loadResource_def handleLoadError_def)
next
  case (Inr u)
  obtain r w' where f: "fetchWithTimeout0 net opts w
      \<lparr>req_url = u, req_method = getMethod opts, req_headers = headers opts,
       req_body = None\<rparr> = (r, w')"
    by (cases "fetchWithTimeout0 net opts w
      \<lparr>req_url = u, req_method = getMethod opts, req_headers = headers opts,
       req_body = None\<rparr>") auto
  have "is_failure r"
    using assms(2) Inr f by (simp add: load_fails_def getRequest_def)
  then show ?thesis
    using assms(1) Inr f
    by (auto simp: loadResource_def handleLoadError_def is_failure_def split: sum.splits)
qed

lemma persist_frame:
  assumes "persistResource net opts w lang ns data = (res, w1)"
  shows "cache w1 = cache w \<and> heap w1 = heap w"
proof (cases "allowSaving opts")
  case False
  then show ?thesis using assms by (simp add: persistResource_def)
next
  case True
  show ?thesis
  proof (cases "getResourceUrl opts lang ns")
    case (Inl e)
    then show ?thesis using assms True by (simp add: persistResource_def)
  next
    case (Inr u)
    let ?req = "\<lparr>req_url = u, req_method = saveMethod opts,
                 req_headers = [''Content-Type'' \<mapsto> ''application/json''] ++ headers opts,
                 req_body = stringify data\<rparr>"
    obtain r w' where f: "fetchWithTimeout0 net opts w ?req = (r, w')"
      by (cases "fetchWithTimeout0 net opts w ?req") auto
    have "w1 = w'"
      using assms True Inr f
      by (auto simp: persistResource_def split: sum.splits if_splits)
    then show ?thesis using fetch0_frame [OF f] by simp
  qed
qed

text \<open>A cache hit: the copy of the cached value goes to a new cell, nothing else changes.\<close>

lemma getResource_hit:
  assumes "cacheEnabled opts" and "truthy (cached w (getCacheKey lang ns))"
  shows "\<exists>v. jsonCopy (cached w (getCacheKey lang ns)) = Some v
           \<and> getResource net opts w lang ns =
               (Inr (length (heap w)), w\<lparr>heap := heap w @ [v]\<rparr>)"
  using assms truthy_jsonCopy [of "cached w (getCacheKey lang ns)"]
  by (auto simp: getResource_def fresh_def alloc_def Let_def)

lemma getResource_hit_empty:
  assumes "cacheEnabled opts" and "cached w (getCacheKey lang ns) = VObj []"
  shows "getResource net opts w lang ns =
           (Inr (length (heap w)), w\<lparr>heap := heap w @ [VObj []]\<rparr>)"
  using assms by (simp add: getResource_def fresh_def alloc_def Let_def jsonCopy_empty)

text \<open>\<open>getResource\<close> never rejects.\<close>

lemma getResource_total:
  "\<exists>a w'. getResource net opts w lang ns = (Inr a, w')"
proof (cases "cacheEnabled opts \<and> truthy (cached w (getCacheKey lang ns))")
  case True
  then show ?thesis using getResource_hit [of opts w lang ns net] by auto
next
  case False
  then show ?thesis
    by (auto simp: getResource_def fresh_def alloc_def Let_def
        split: prod.splits sum.splits option.splits)
qed

lemma getResource_miss_fail:
  assumes h: "handleErrorFn opts = None"
    and miss: "\<not> (cacheEnabled opts \<and> truthy (cached w (getCacheKey lang ns)))"
    and f: "load_fails net opts w lang ns"
  shows "\<exists>a w1. getResource net opts w lang ns = (Inr a, w1)
           \<and> deref (heap w1) a = VObj []
           \<and> (cacheEnabled opts \<longrightarrow> cached w1 (getCacheKey lang ns) = VObj [])"
proof -
  obtain w1 where l: "loadResource net opts w lang ns = (Inr (VObj []), w1)"
    using loadResource_fails [OF h f] by blast
  show ?thesis
    using miss l
    by (auto simp: getResource_def fresh_def alloc_def Let_def jsonCopy_empty cached_def
        deref_def nth_append)
qed

text \<open>What \<open>getResource\<close> returns is a new cell, which no cache entry refers to.\<close>

lemma getResource_fresh:
  assumes wf: "cache_wf w" and g: "getResource net opts w lang ns = (Inr a, w1)"
  shows "length (heap w) \<le> a \<and> a < length (heap w1) \<and> cache_wf w1
         \<and> (\<forall>k c. cache w1 k = Some c \<longrightarrow> c \<noteq> a)
         \<and> (\<exists>hs. heap w1 = heap w @ hs)"
proof (cases "cacheEnabled opts \<and> truthy (cached w (getCacheKey lang ns))")
  case True
  then obtain v where "getResource net opts w lang ns
      = (Inr (length (heap w)), w\<lparr>heap := heap w @ [v]\<rparr>)"
    using getResource_hit [of opts w lang ns net] by blast
  then show ?thesis using g wf by (fastforce simp: cache_wf_def)
next
  case False
  obtain r w0 where l: "loadResource net opts w lang ns = (r, w0)"
    by (cases "loadResource net opts w lang ns") auto
  have fr: "cache w0 = cache w \<and> heap w0 = heap w"
    using loadResource_frame [OF l] .
  show ?thesis
  proof (cases "cacheEnabled opts")
    case True
    then show ?thesis
      using g False l fr wf
      by (fastforce simp: getResource_def fresh_def alloc_def Let_def cache_wf_def
          split: sum.splits option.splits if_splits)
  next
    case nc: False
    then show ?thesis
      using g l fr wf
      by (fastforce simp: getResource_def fresh_def alloc_def Let_def cache_wf_def
          split: sum.splits option.splits if_splits)
  qed
qed


text \<open>The invariant \<open>cache_wf\<close> holds at the start and is kept by every operation and by
  every change a caller makes to an object.\<close>

lemma cache_wf_init: "cache_wf init_world"
  by (simp add: cache_wf_def init_world_def)

lemma cache_wf_saveResource:
  assumes "cache_wf w" and "saveResource net opts w lang ns data = (r, w1)"
  shows "cache_wf w1"
proof -
  obtain p w0 where p: "persistResource net opts w lang ns data = (p, w0)"
    by (cases "persistResource net opts w lang ns data") auto
  have fr: "cache w0 = cache w \<and> heap w0 = heap w"
    using persist_frame [OF p] .
  show ?thesis
    using assms p fr
    by (fastforce simp: saveResource_def fresh_def alloc_def cache_wf_def
        split: sum.splits option.splits if_splits)
qed

lemma cache_wf_clearCache: "cache_wf w \<Longrightarrow> cache_wf (clearCache w lang ns)"
  by (auto simp: clearCache_def cache_wf_def split: if_splits)

lemma cache_wf_mutate: "cache_wf w \<Longrightarrow> cache_wf (w\<lparr>heap := mutate (heap w) a x\<rparr>)"
  by (simp add: cache_wf_def mutate_def)

text \<open>Once the empty object is cached, any number of reads returns it and sends nothing.\<close>

lemma repeat_hit_empty:
  assumes "cacheEnabled opts"
  shows "cached w (getCacheKey lang ns) = VObj [] \<Longrightarrow>
         \<exists>rs w2 hs. getResourceRepeat n net opts w lang ns = (rs, w2)
           \<and> fetched w2 = fetched w \<and> waits w2 = waits w \<and> cache w2 = cache w
           \<and> heap w2 = heap w @ hs \<and> length rs = n
           \<and> (\<forall>r\<in>set rs. \<exists>b. r = Inr b \<and> deref (heap w2) b = VObj [])"
proof (induction n arbitrary: w)
  case 0
  then show ?case by simp
next
  case (Suc n)
  let ?w1 = "w\<lparr>heap := heap w @ [VObj []]\<rparr>"
  have g: "getResource net opts w lang ns = (Inr (length (heap w)), ?w1)"
    using getResource_hit_empty [OF assms Suc.prems] .
  have c: "cached ?w1 (getCacheKey lang ns) = VObj []"
    using cached_extend [of w "getCacheKey lang ns" "[VObj []]"] Suc.prems by simp
  from Suc.IH [OF c] obtain rs w2 hs where
    r: "getResourceRepeat n net opts ?w1 lang ns = (rs, w2)"
    and p: "fetched w2 = fetched ?w1" "waits w2 = waits ?w1" "cache w2 = cache ?w1"
      "heap w2 = heap ?w1 @ hs" "length rs = n"
      "\<forall>r\<in>set rs. \<exists>b. r = Inr b \<and> deref (heap w2) b = VObj []"
    by blast
  have "deref (heap w2) (length (heap w)) = VObj []"
    using p(4) by (simp add: deref_def nth_append)
  then show ?case using g r p by simp
qed

lemma getLanguages_fails:
  assumes "list_fails net opts w (baseUrl opts @ languagesUrl opts)"
  shows "fst (getLanguages net opts w) = []"
  using assms
  by (auto simp: getLanguages_def getRequest_def list_fails_def Let_def
      split: prod.splits sum.splits if_splits)

lemma getNamespaces_fails:
  assumes "list_fails net opts w (baseUrl opts @ namespacesUrl opts)"
  shows "fst (getNamespaces net opts w) = []"
  using assms
  by (auto simp: getNamespaces_def getRequest_def list_fails_def Let_def
      split: prod.splits sum.splits if_splits)

section \<open>The claims\<close>

subsection \<open>Retry budget and backoff\<close>

text \<open>
  C2: with \<open>maxRetries\<close> 3, \<open>retryDelay\<close> 300 and exponential backoff, against a network
  where every attempt of the request is a retryable failure, \<open>fetchWithTimeout\<close> sends the
  request exactly four times and sleeps 300, 600 and 1200 milliseconds between the
  attempts. Then it surfaces the failure of the fourth attempt: it rejects with a
  structured error that is retryable (timeout or network), or it hands back the response
  of the fourth attempt, which is not ok. The cache and the heap are untouched.
\<close>

theorem fetchWithTimeout_retry_budget:
  assumes m: "maxRetries opts = 3" and d: "retryDelay opts = 300"
    and b: "useExponentialBackoff opts"
    and f: "\<forall>i. retryable_failure opts (net i req)"
  shows "\<exists>res w'. fetchWithTimeout0 net opts w req = (res, w')
           \<and> fetched w' = fetched w @ [req, req, req, req]
           \<and> waits w' = waits w @ [300, 600, 1200]
           \<and> cache w' = cache w \<and> heap w' = heap w
           \<and> (case res of
                Inl e \<Rightarrow> \<exists>err. e = Structured err \<and> retryable err
                           \<and> (type err = TIMEOUT \<or> type err = NETWORK)
              | Inr r \<Rightarrow> net (length (fetched w) + 3) req = Responds r \<and> \<not> ok r)"
proof -
  let ?w1 = "w\<lparr>fetched := fetched w @ [req], waits := waits w @ [300]\<rparr>"
  let ?w2 = "?w1\<lparr>fetched := fetched ?w1 @ [req], waits := waits ?w1 @ [600]\<rparr>"
  let ?w3 = "?w2\<lparr>fetched := fetched ?w2 @ [req], waits := waits ?w2 @ [1200]\<rparr>"
  have s1: "fetchWithTimeout net opts w req 3 300 = fetchWithTimeout net opts ?w1 req 2 600"
    using fetch_retry_step [of opts net w req 3 300] f b by simp
  have s2: "fetchWithTimeout net opts ?w1 req 2 600 = fetchWithTimeout net opts ?w2 req 1 1200"
    using fetch_retry_step [of opts net ?w1 req 2 600] f b by simp
  have s3: "fetchWithTimeout net opts ?w2 req 1 1200 = fetchWithTimeout net opts ?w3 req 0 2400"
    using fetch_retry_step [of opts net ?w2 req 1 1200] f b by simp
  obtain res where r: "fetchWithTimeout net opts ?w3 req 0 2400 =
           (res, ?w3\<lparr>fetched := fetched ?w3 @ [req]\<rparr>)"
     and c: "(case res of
              Inl e \<Rightarrow> \<exists>err. e = Structured err \<and> retryable err
                         \<and> (type err = TIMEOUT \<or> type err = NETWORK)
            | Inr r \<Rightarrow> net (length (fetched ?w3)) req = Responds r \<and> \<not> ok r)"
    using fetch_last_step [of opts net ?w3 req 0 2400] f by blast
  have "fetchWithTimeout0 net opts w req = (res, ?w3\<lparr>fetched := fetched ?w3 @ [req]\<rparr>)"
    using s1 s2 s3 r m d by (simp add: fetchWithTimeout0_def defaultRetries_def defaultDelay_def)
  moreover have "length (fetched ?w3) = length (fetched w) + 3" by simp
  ultimately show ?thesis using c by (auto split: sum.splits simp: eval_nat_numeral)
qed

theorem fetchWithTimeout_retry_budget_witness:
  "maxRetries (defaultOptions ''http://h'') = 3
   \<and> retryDelay (defaultOptions ''http://h'') = 300
   \<and> useExponentialBackoff (defaultOptions ''http://h'')
   \<and> (\<forall>i. retryable_failure (defaultOptions ''http://h'')
              ((\<lambda>i req. Responds \<lparr>resp_status = 503, resp_json = None\<rparr>) i
                 (getRequest (defaultOptions ''http://h'') ''http://h/languages'')))
   \<and> (\<exists>res w'. fetchWithTimeout0 (\<lambda>i req. Responds \<lparr>resp_status = 503, resp_json = None\<rparr>)
                   (defaultOptions ''http://h'') init_world
                   (getRequest (defaultOptions ''http://h'') ''http://h/languages'') = (res, w')
        \<and> length (fetched w') = 4
        \<and> waits w' = [300, 600, 1200]
        \<and> res = Inr \<lparr>resp_status = 503, resp_json = None\<rparr>)"
proof -
  let ?opts = "defaultOptions ''http://h''"
  let ?net = "\<lambda>(i::nat) (req::request). Responds \<lparr>resp_status = 503, resp_json = None\<rparr>"
  let ?req = "getRequest ?opts ''http://h/languages''"
  have h1: "maxRetries ?opts = 3" by (simp add: defaultOptions_def)
  have h2: "retryDelay ?opts = 300" by (simp add: defaultOptions_def)
  have h3: "useExponentialBackoff ?opts" by (simp add: defaultOptions_def)
  have h4: "\<forall>i. retryable_failure ?opts (?net i ?req)"
    by (simp add: retryable_failure_def defaultOptions_def ok_def isRetryableStatusCode_def)
  from fetchWithTimeout_retry_budget [OF h1 h2 h3 h4, of init_world]
  obtain res w' where r: "fetchWithTimeout0 ?net ?opts init_world ?req = (res, w')"
    and p: "fetched w' = fetched init_world @ [?req, ?req, ?req, ?req]"
      "waits w' = waits init_world @ [300, 600, 1200]"
      "(case res of
          Inl e \<Rightarrow> \<exists>err. e = Structured err \<and> retryable err
                     \<and> (type err = TIMEOUT \<or> type err = NETWORK)
        | Inr r \<Rightarrow> ?net (length (fetched init_world) + 3) ?req = Responds r \<and> \<not> ok r)"
    by blast
  have "fst (fetchWithTimeout0 ?net ?opts init_world ?req)
          = Inr \<lparr>resp_status = 503, resp_json = None\<rparr>"
    by code_simp
  then have "res = Inr \<lparr>resp_status = 503, resp_json = None\<rparr>"
    using r by simp
  moreover have "length (fetched w') = 4" using p(1) by (simp add: init_world_def)
  moreover have "waits w' = [300, 600, 1200]" using p(2) by (simp add: init_world_def)
  ultimately show ?thesis using h1 h2 h3 h4 r by blast
qed

subsection \<open>Error classification\<close>

text \<open>
  C3, as stated, at status 429: the classifier gives the kind \<open>UNKNOWN\<close> with
  \<open>retryable\<close> false; \<open>HttpErrorType\<close> has no kind for too many requests.
\<close>

theorem createHttpError_429_counterexample:
  "type (createHttpError 429 (LoadFailed 429) ''http://h/resources/en/t'') = UNKNOWN
   \<and> \<not> retryable (createHttpError 429 (LoadFailed 429) ''http://h/resources/en/t'')"
  by (simp add: createHttpError_def)

text \<open>
  C3, amended: for a response with status 429 the classifier \<open>createHttpError\<close> produces
  an error of kind \<open>UNKNOWN\<close> that carries the status 429 and the URL, and the retry test
  of the transport, \<open>isRetryableStatusCode\<close>, accepts 429.
\<close>

theorem createHttpError_429_unknown:
  "type (createHttpError 429 msg u) = UNKNOWN
   \<and> status (createHttpError 429 msg u) = Some 429
   \<and> url (createHttpError 429 msg u) = u
   \<and> isRetryableStatusCode 429"
  by (simp add: createHttpError_def isRetryableStatusCode_def)

text \<open>
  C4: when the response to a request has status 404, \<open>fetchWithTimeout\<close> returns it after
  that one attempt, whatever the retry budget and the delay: one request is logged and
  nothing is slept. The error made from the response has the kind \<open>NOT_FOUND\<close>, is not
  retryable and carries the status 404; on the read path it is this error that
  \<open>loadResource\<close> hands to its \<^verbatim>\<open>catch\<close> block, after the single request.
\<close>

theorem not_found_single_attempt:
  assumes n: "net (length (fetched w)) req = Responds r" and s: "resp_status r = 404"
  shows "fetchWithTimeout net opts w req retries delay =
           (Inr r, w\<lparr>fetched := fetched w @ [req]\<rparr>)
         \<and> type (createHttpError (resp_status r) msg u) = NOT_FOUND
         \<and> retryable (createHttpError (resp_status r) msg u) = False
         \<and> status (createHttpError (resp_status r) msg u) = Some 404
         \<and> (getResourceUrl opts lang ns = Inr u \<and> req = getRequest opts u \<longrightarrow>
              loadResource net opts w lang ns =
                (handleLoadError opts (Structured (createHttpError 404 (LoadFailed 404) u))
                   lang ns,
                 w\<lparr>fetched := fetched w @ [req]\<rparr>))"
proof -
  have "\<not> isRetryableStatusCode (resp_status r)"
    using s by (simp add: isRetryableStatusCode_def)
  then have one: "fetchWithTimeout net opts w req retries delay =
           (Inr r, w\<lparr>fetched := fetched w @ [req]\<rparr>)" for retries delay
    using n fetch_no_retry [where net = net and w = w and req = req and r = r] by blast
  have "loadResource net opts w lang ns =
                (handleLoadError opts (Structured (createHttpError 404 (LoadFailed 404) u))
                   lang ns,
                 w\<lparr>fetched := fetched w @ [req]\<rparr>)"
    if "getResourceUrl opts lang ns = Inr u" and "req = getRequest opts u"
    using that one [of "defaultRetries opts" "defaultDelay opts"] s
    by (simp add: loadResource_def fetchWithTimeout0_def getRequest_def ok_def)
  then show ?thesis using one s by (simp add: createHttpError_def)
qed

theorem not_found_single_attempt_witness:
  "(\<lambda>i req. Responds \<lparr>resp_status = 404, resp_json = None\<rparr>)
      (length (fetched init_world))
      (getRequest (defaultOptions ''http://h'') ''http://h/resources/fr/t'')
     = Responds \<lparr>resp_status = 404, resp_json = None\<rparr>
   \<and> resp_status \<lparr>resp_status = 404, resp_json = None\<rparr> = 404
   \<and> getResourceUrl (defaultOptions ''http://h'') ''fr'' ''t'' = Inr ''http://h/resources/fr/t''
   \<and> fetched (snd (loadResource (\<lambda>i req. Responds \<lparr>resp_status = 404, resp_json = None\<rparr>)
                      (defaultOptions ''http://h'') init_world ''fr'' ''t''))
       = [getRequest (defaultOptions ''http://h'') ''http://h/resources/fr/t'']
   \<and> waits (snd (loadResource (\<lambda>i req. Responds \<lparr>resp_status = 404, resp_json = None\<rparr>)
                      (defaultOptions ''http://h'') init_world ''fr'' ''t'')) = []"
proof -
  let ?opts = "defaultOptions ''http://h''"
  let ?r = "\<lparr>resp_status = 404, resp_json = None\<rparr>"
  let ?net = "\<lambda>(i::nat) (req::request). Responds ?r"
  let ?req = "getRequest ?opts ''http://h/resources/fr/t''"
  have h1: "?net (length (fetched init_world)) ?req = Responds ?r" by simp
  have h2: "resp_status ?r = 404" by simp
  have h3: "getResourceUrl ?opts ''fr'' ''t'' = Inr ''http://h/resources/fr/t''"
    by code_simp
  from not_found_single_attempt [of ?net init_world ?req ?r ?opts 3 300
      "LoadFailed 404" "''http://h/resources/fr/t''" "''fr''" "''t''", OF h1 h2] h3
  have "loadResource ?net ?opts init_world ''fr'' ''t'' =
          (handleLoadError ?opts
             (Structured (createHttpError 404 (LoadFailed 404) ''http://h/resources/fr/t''))
             ''fr'' ''t'',
           init_world\<lparr>fetched := fetched init_world @ [?req]\<rparr>)"
    by blast
  then show ?thesis using h1 h2 h3 by (simp add: init_world_def)
qed

subsection \<open>Read paths degrade\<close>

text \<open>
  C5: \<open>getResource\<close> never rejects, for any language and namespace; when the cache does
  not answer, no custom error handler is configured and the fetch fails, the payload it
  returns is the empty object. \<open>getLanguages\<close> and \<open>getNamespaces\<close> return the empty list
  when their request fails or its body is not JSON.
\<close>

theorem read_paths_degrade:
  "(\<exists>a w1. getResource net opts w lang ns = (Inr a, w1)
       \<and> (handleErrorFn opts = None
            \<and> \<not> (cacheEnabled opts \<and> truthy (cached w (getCacheKey lang ns)))
            \<and> load_fails net opts w lang ns
          \<longrightarrow> deref (heap w1) a = VObj []))
   \<and> (list_fails net opts w (baseUrl opts @ languagesUrl opts)
       \<longrightarrow> fst (getLanguages net opts w) = [])
   \<and> (list_fails net opts w (baseUrl opts @ namespacesUrl opts)
       \<longrightarrow> fst (getNamespaces net opts w) = [])"
proof -
  obtain a w1 where g: "getResource net opts w lang ns = (Inr a, w1)"
    using getResource_total by blast
  have A: "\<exists>a w1. getResource net opts w lang ns = (Inr a, w1)
       \<and> (handleErrorFn opts = None
            \<and> \<not> (cacheEnabled opts \<and> truthy (cached w (getCacheKey lang ns)))
            \<and> load_fails net opts w lang ns
          \<longrightarrow> deref (heap w1) a = VObj [])"
  proof (intro exI conjI impI)
    show "getResource net opts w lang ns = (Inr a, w1)" by (rule g)
  next
    assume "handleErrorFn opts = None
            \<and> \<not> (cacheEnabled opts \<and> truthy (cached w (getCacheKey lang ns)))
            \<and> load_fails net opts w lang ns"
    then show "deref (heap w1) a = VObj []"
      using getResource_miss_fail [of opts w lang ns net] g by auto
  qed
  show ?thesis
    using A getLanguages_fails [of net opts w] getNamespaces_fails [of net opts w]
    by (intro conjI impI) assumption+
qed

theorem read_paths_degrade_witness:
  "handleErrorFn (defaultOptions ''http://h'') = None
   \<and> \<not> (cacheEnabled (defaultOptions ''http://h'')
         \<and> truthy (cached init_world (getCacheKey ''fr'' ''translation'')))
   \<and> load_fails (\<lambda>i req. Responds \<lparr>resp_status = 404, resp_json = None\<rparr>)
        (defaultOptions ''http://h'') init_world ''fr'' ''translation''
   \<and> (\<exists>a w1. getResource (\<lambda>i req. Responds \<lparr>resp_status = 404, resp_json = None\<rparr>)
        (defaultOptions ''http://h'') init_world ''fr'' ''translation'' = (Inr a, w1)
        \<and> deref (heap w1) a = VObj [])
   \<and> list_fails (\<lambda>i req. Responds \<lparr>resp_status = 404, resp_json = None\<rparr>)
        (defaultOptions ''http://h'') init_world
        (baseUrl (defaultOptions ''http://h'') @ languagesUrl (defaultOptions ''http://h''))
   \<and> fst (getLanguages (\<lambda>i req. Responds \<lparr>resp_status = 404, resp_json = None\<rparr>)
        (defaultOptions ''http://h'') init_world) = []
   \<and> list_fails (\<lambda>i req. Responds \<lparr>resp_status = 404, resp_json = None\<rparr>)
        (defaultOptions ''http://h'') init_world
        (baseUrl (defaultOptions ''http://h'') @ namespacesUrl (defaultOptions ''http://h''))
   \<and> fst (getNamespaces (\<lambda>i req. Responds \<lparr>resp_status = 404, resp_json = None\<rparr>)
        (defaultOptions ''http://h'') init_world) = []"
proof -
  let ?net = "\<lambda>(i::nat) (req::request). Responds \<lparr>resp_status = 404, resp_json = None\<rparr>"
  let ?opts = "defaultOptions ''http://h''"
  have h1: "handleErrorFn ?opts = None" by (simp add: defaultOptions_def)
  have h2: "\<not> (cacheEnabled ?opts
               \<and> truthy (cached init_world (getCacheKey ''fr'' ''translation'')))"
    by (simp add: cached_def init_world_def)
  have h3: "load_fails ?net ?opts init_world ''fr'' ''translation''"
    by code_simp
  have h4: "list_fails ?net ?opts init_world (baseUrl ?opts @ languagesUrl ?opts)"
    by code_simp
  have h5: "list_fails ?net ?opts init_world (baseUrl ?opts @ namespacesUrl ?opts)"
    by code_simp
  from read_paths_degrade [of ?net ?opts init_world "''fr''" "''translation''"] h1 h2 h3 h4 h5
  show ?thesis by blast
qed

subsection \<open>Saving\<close>

text \<open>
  C6: with \<open>allowSaving\<close> false, \<open>saveResource\<close> rejects with the error of the disabled
  save for every language, namespace and payload, and the state is the one before the
  call: no request was sent, nothing was slept, the cache and the heap are unchanged.
\<close>

theorem saveResource_not_allowed:
  "\<not> allowSaving opts \<Longrightarrow>
   saveResource net opts w lang ns data = (Inl (Raw SavingNotAllowed), w)"
  by (simp add: saveResource_def persistResource_def)

theorem saveResource_not_allowed_witness:
  "\<not> allowSaving (defaultOptions ''http://h'')
   \<and> saveResource (\<lambda>i req. Fails AbortError) (defaultOptions ''http://h'') init_world
        ''en'' ''t'' (VObj [(''a'', VNum 1)])
      = (Inl (Raw SavingNotAllowed), init_world)"
proof -
  have h: "\<not> allowSaving (defaultOptions ''http://h'')"
    by (simp add: defaultOptions_def)
  show ?thesis
    using h saveResource_not_allowed [OF h] by simp
qed




subsection \<open>Expiry in SimpleCache\<close>

text \<open>
  C8, as stated, at a cache made with a default age of 100 milliseconds: an entry set
  without a time to live at time 0 is gone at time 101.
\<close>

theorem SimpleCache_default_age_counterexample:
  "fst (cache_get (cache_set (SimpleCache_new 100) 0 ''k'' (7::nat) None) 101 ''k'') = None"
  by (simp add: cache_get_def cache_set_def SimpleCache_new_def)

text \<open>
  C8, amended: after \<open>set\<close> at time \<open>t0\<close> with a time to live of 500, a \<open>get\<close> before
  \<open>t0 + 500\<close> returns the value and leaves the cache as it is, and a \<open>get\<close> after
  \<open>t0 + 500\<close> returns nothing and removes the entry. An entry set with a time to live of
  0 is returned at every time; so is an entry set without a time to live when the default
  age of the cache is 0.
\<close>

theorem SimpleCache_expiry:
  "(t1 < t0 + 500 \<longrightarrow>
      cache_get (cache_set c t0 k v (Some 500)) t1 k = (Some v, cache_set c t0 k v (Some 500)))
   \<and> (t2 > t0 + 500 \<longrightarrow>
      cache_get (cache_set c t0 k v (Some 500)) t2 k =
        (None, c\<lparr>items := (items c)(k := None)\<rparr>))
   \<and> cache_get (cache_set c t0 k v (Some 0)) t3 k = (Some v, cache_set c t0 k v (Some 0))
   \<and> (defaultMaxAge c = 0 \<longrightarrow>
      cache_get (cache_set c t0 k v None) t3 k = (Some v, cache_set c t0 k v None))"
  by (simp add: cache_get_def cache_set_def)

theorem SimpleCache_expiry_witness:
  "cache_get (cache_set (SimpleCache_new 0) 1000 ''k'' (7::nat) (Some 500)) 1499 ''k''
     = (Some 7, cache_set (SimpleCache_new 0) 1000 ''k'' 7 (Some 500))
   \<and> cache_get (cache_set (SimpleCache_new 0) 1000 ''k'' (7::nat) (Some 500)) 1501 ''k''
     = (None, (SimpleCache_new 0)\<lparr>items := (items (SimpleCache_new 0))(''k'' := None)\<rparr>)
   \<and> defaultMaxAge (SimpleCache_new 0 :: (string, nat) SimpleCache) = 0
   \<and> cache_get (cache_set (SimpleCache_new 0) 1000 ''k'' (7::nat) None) 999999 ''k''
     = (Some 7, cache_set (SimpleCache_new 0) 1000 ''k'' 7 None)"
proof -
  have d: "defaultMaxAge (SimpleCache_new 0 :: (string, nat) SimpleCache) = 0"
    by (simp add: SimpleCache_new_def)
  show ?thesis
    using d SimpleCache_expiry [of 1499 1000 "SimpleCache_new 0" "''k''" "7::nat" 1501 999999]
    by simp
qed

subsection \<open>Cache keys\<close>

text \<open>The key is injective on the pairs whose languages hold no dot.\<close>

lemma getCacheKey_inj:
  assumes "CHR ''.'' \<notin> set l1" and "CHR ''.'' \<notin> set l2"
    and "getCacheKey l1 n1 = getCacheKey l2 n2"
  shows "l1 = l2 \<and> n1 = n2"
  using assms unfolding getCacheKey_def
proof (induction l1 arbitrary: l2)
  case Nil
  then show ?case by (cases l2) auto
next
  case (Cons a l1)
  then show ?case by (cases l2) auto
qed

text \<open>
  C9 at the pairs \<^verbatim>\<open>('a.b', 'c')\<close> and \<^verbatim>\<open>('a', 'b.c')\<close>: the pairs differ and have
  the same cache key. After a save for the first pair, a read for the second pair returns
  the saved payload from the cache and sends no request (the network would have answered
  with the empty object); clearing the language \<^verbatim>\<open>'a'\<close> removes the entry of the
  language \<^verbatim>\<open>'a.b'\<close>, and so does clearing the single pair \<^verbatim>\<open>('a', 'b.c')\<close>.
\<close>

theorem getCacheKey_collision:
  "(''a.b'', ''c'') \<noteq> (''a'', ''b.c'')
   \<and> getCacheKey ''a.b'' ''c'' = getCacheKey ''a'' ''b.c''
   \<and> (case saveResource (\<lambda>i req. Responds \<lparr>resp_status = 200, resp_json = None\<rparr>)
           ((defaultOptions ''http://h'')\<lparr>allowSaving := True\<rparr>) init_world ''a.b'' ''c''
           (VObj [(''x'', VNum 1)]) of
      (r1, w1) \<Rightarrow>
        r1 = Inr ()
        \<and> (case getResource
                   (\<lambda>i req. Responds \<lparr>resp_status = 200, resp_json = Some (VObj [])\<rparr>)
                   ((defaultOptions ''http://h'')\<lparr>allowSaving := True\<rparr>) w1 ''a'' ''b.c'' of
             (r2, w2) \<Rightarrow>
               r2 = Inr 1 \<and> deref (heap w2) 1 = VObj [(''x'', VNum 1)]
               \<and> length (fetched w2) = length (fetched w1))
        \<and> cache w1 (getCacheKey ''a.b'' ''c'') = Some 0
        \<and> cache (clearCache w1 (Some ''a'') None) (getCacheKey ''a.b'' ''c'') = None
        \<and> cache (clearCache w1 (Some ''a'') (Some ''b.c'')) (getCacheKey ''a.b'' ''c'') = None)"
  by code_simp

subsection \<open>The cached fallback\<close>

text \<open>
  C10: with the cache enabled and no custom error handler, a \<open>getResource\<close> that misses
  the cache and whose fetch fails returns the empty object and leaves the empty object in
  the cache under the key of the pair. From that state, any number of further
  \<open>getResource\<close> calls for the pair return the empty object, whatever the network would
  answer, and send no request and sleep no delay.
\<close>

theorem failed_fetch_is_cached:
  assumes en: "cacheEnabled opts" and h: "handleErrorFn opts = None"
    and miss: "\<not> truthy (cached w (getCacheKey lang ns))"
    and f: "load_fails net opts w lang ns"
  shows "\<exists>a w1. getResource net opts w lang ns = (Inr a, w1)
           \<and> deref (heap w1) a = VObj []
           \<and> cached w1 (getCacheKey lang ns) = VObj []
           \<and> (\<forall>n net2. \<exists>rs w2.
                 getResourceRepeat n net2 opts w1 lang ns = (rs, w2)
                 \<and> length rs = n
                 \<and> fetched w2 = fetched w1 \<and> waits w2 = waits w1
                 \<and> (\<forall>r\<in>set rs. \<exists>b. r = Inr b \<and> deref (heap w2) b = VObj []))"
proof -
  have m: "\<not> (cacheEnabled opts \<and> truthy (cached w (getCacheKey lang ns)))"
    using miss by simp
  obtain a w1 where g: "getResource net opts w lang ns = (Inr a, w1)"
    and e: "deref (heap w1) a = VObj []"
    and c: "cached w1 (getCacheKey lang ns) = VObj []"
    using getResource_miss_fail [OF h m f] en by blast
  have "\<exists>rs w2. getResourceRepeat n net2 opts w1 lang ns = (rs, w2)
                 \<and> length rs = n
                 \<and> fetched w2 = fetched w1 \<and> waits w2 = waits w1
                 \<and> (\<forall>r\<in>set rs. \<exists>b. r = Inr b \<and> deref (heap w2) b = VObj [])"
    for n net2
    using repeat_hit_empty [OF en c, of n net2] by blast
  then show ?thesis using g e c by blast
qed

theorem failed_fetch_is_cached_witness:
  "cacheEnabled (defaultOptions ''http://h'')
   \<and> handleErrorFn (defaultOptions ''http://h'') = None
   \<and> \<not> truthy (cached init_world (getCacheKey ''fr'' ''t''))
   \<and> load_fails (\<lambda>i req. Fails AbortError) (defaultOptions ''http://h'') init_world ''fr'' ''t''
   \<and> (\<exists>a w1. getResource (\<lambda>i req. Fails AbortError) (defaultOptions ''http://h'') init_world
                ''fr'' ''t'' = (Inr a, w1)
        \<and> deref (heap w1) a = VObj []
        \<and> cached w1 (getCacheKey ''fr'' ''t'') = VObj []
        \<and> (\<exists>rs w2. getResourceRepeat 2
                       (\<lambda>i req. Responds
                          \<lparr>resp_status = 200, resp_json = Some (VObj [(''a'', VNum 1)])\<rparr>)
                       (defaultOptions ''http://h'') w1 ''fr'' ''t'' = (rs, w2)
              \<and> length rs = 2 \<and> fetched w2 = fetched w1))"
proof -
  let ?net = "\<lambda>(i::nat) (req::request). Fails AbortError"
  let ?opts = "defaultOptions ''http://h''"
  have h1: "cacheEnabled ?opts" by (simp add: defaultOptions_def)
  have h2: "handleErrorFn ?opts = None" by (simp add: defaultOptions_def)
  have h3: "\<not> truthy (cached init_world (getCacheKey ''fr'' ''t''))"
    by (simp add: cached_def init_world_def)
  have h4: "load_fails ?net ?opts init_world ''fr'' ''t''"
    by code_simp
  from failed_fetch_is_cached [OF h1 h2 h3 h4] h1 h2 h3 h4
  show ?thesis by blast
qed

subsection \<open>Copies at the cache boundary\<close>

text \<open>
  C1, as stated, at \<open>SimpleCache\<close>: the object at reference 0 is stored under a key; \<open>get\<close>
  returns the reference 0 itself, twice, so the change that a caller makes through the
  first returned reference is a change of the stored object and of what the second
  \<open>get\<close> returns.
\<close>

theorem SimpleCache_get_alias_counterexample:
  "(case cache_get (cache_set (SimpleCache_new 0) 0 ''k'' (0::addr) None) 0 ''k'' of
      (r1, c2) \<Rightarrow>
        (case cache_get c2 0 ''k'' of
           (r2, c3) \<Rightarrow>
             r1 = Some 0 \<and> r2 = Some 0
             \<and> map_option item_value (items c3 ''k'') = Some 0
             \<and> deref [VObj [(''a'', VNum 1)]] 0 = VObj [(''a'', VNum 1)]
             \<and> deref (mutate [VObj [(''a'', VNum 1)]] 0 (VObj [(''a'', VNum 2)])) 0
                 = VObj [(''a'', VNum 2)]))"
  by (simp add: cache_get_def cache_set_def SimpleCache_new_def deref_def mutate_def)

text \<open>
  C1, amended, for the resource cache of \<open>BaseStorageAdapter\<close>: in every state whose cache
  refers to allocated objects, \<open>getResource\<close> returns a reference to a new object, which no
  cache entry refers to; the objects that existed before the call (the stored entries and
  the payloads returned earlier) are unchanged by the call and by any later change of the
  returned object, and so is what every cache key holds. On a cache hit the returned
  payload is the JSON copy of the stored one and the cache is unchanged; a second
  \<open>getResource\<close>, made after the caller has changed the first payload in any way, returns
  another new object with the payload the first call returned, and changing that object
  changes neither the first payload nor what any cache key holds.
\<close>

theorem getResource_independent_copies:
  assumes wf: "cache_wf w"
  shows "\<exists>a1 w1.
           getResource net opts w lang ns = (Inr a1, w1)
           \<and> length (heap w) \<le> a1 \<and> a1 < length (heap w1)
           \<and> (\<forall>k c. cache w1 k = Some c \<longrightarrow> c \<noteq> a1)
           \<and> (\<forall>b. b < length (heap w) \<longrightarrow> deref (heap w1) b = deref (heap w) b)
           \<and> (\<forall>x k. cached (w1\<lparr>heap := mutate (heap w1) a1 x\<rparr>) k = cached w1 k)
           \<and> (\<forall>x b. b < length (heap w) \<longrightarrow>
                  deref (mutate (heap w1) a1 x) b = deref (heap w) b)
           \<and> (cacheEnabled opts \<and> truthy (cached w (getCacheKey lang ns)) \<longrightarrow>
                jsonCopy (cached w (getCacheKey lang ns)) = Some (deref (heap w1) a1)
                \<and> cache w1 = cache w
                \<and> (\<forall>x. \<exists>a2 w2.
                       getResource net2 opts (w1\<lparr>heap := mutate (heap w1) a1 x\<rparr>) lang ns
                         = (Inr a2, w2)
                       \<and> deref (heap w2) a2 = deref (heap w1) a1
                       \<and> a2 \<noteq> a1
                       \<and> deref (heap w2) a1 = x
                       \<and> (\<forall>y. deref (mutate (heap w2) a2 y) a1 = x
                              \<and> (\<forall>k. cached (w2\<lparr>heap := mutate (heap w2) a2 y\<rparr>) k
                                        = cached w k))))"
proof -
  let ?k = "getCacheKey lang ns"
  obtain a1 w1 where g: "getResource net opts w lang ns = (Inr a1, w1)"
    using getResource_total by blast
  from getResource_fresh [OF wf g] obtain hs where
    f1: "length (heap w) \<le> a1" and f2: "a1 < length (heap w1)" and wf1: "cache_wf w1"
    and f3: "\<forall>k c. cache w1 k = Some c \<longrightarrow> c \<noteq> a1" and f4: "heap w1 = heap w @ hs"
    by blast
  have p5: "\<forall>b. b < length (heap w) \<longrightarrow> deref (heap w1) b = deref (heap w) b"
    using f4 by (simp add: deref_extend)
  have p6: "\<forall>x k. cached (w1\<lparr>heap := mutate (heap w1) a1 x\<rparr>) k = cached w1 k"
    using cached_mutate_fresh [OF f3] by simp
  have p7: "\<forall>x b. b < length (heap w) \<longrightarrow>
                  deref (mutate (heap w1) a1 x) b = deref (heap w) b"
    using f1 p5 by (simp add: deref_mutate_other)
  have p8: "jsonCopy (cached w ?k) = Some (deref (heap w1) a1)
                \<and> cache w1 = cache w
                \<and> (\<forall>x. \<exists>a2 w2.
                       getResource net2 opts (w1\<lparr>heap := mutate (heap w1) a1 x\<rparr>) lang ns
                         = (Inr a2, w2)
                       \<and> deref (heap w2) a2 = deref (heap w1) a1
                       \<and> a2 \<noteq> a1
                       \<and> deref (heap w2) a1 = x
                       \<and> (\<forall>y. deref (mutate (heap w2) a2 y) a1 = x
                              \<and> (\<forall>k. cached (w2\<lparr>heap := mutate (heap w2) a2 y\<rparr>) k
                                        = cached w k)))"
    if en: "cacheEnabled opts" and hit: "truthy (cached w ?k)"
  proof -
    obtain v where v: "jsonCopy (cached w ?k) = Some v"
      and g1: "getResource net opts w lang ns
                 = (Inr (length (heap w)), w\<lparr>heap := heap w @ [v]\<rparr>)"
      using getResource_hit [OF en hit] by blast
    have a1: "a1 = length (heap w)" and w1: "w1 = w\<lparr>heap := heap w @ [v]\<rparr>"
      using g g1 by simp_all
    have d1: "deref (heap w1) a1 = v" unfolding a1 w1 by (simp add: deref_def)
    have c1: "cache w1 = cache w" unfolding w1 by simp
    have second: "\<exists>a2 w2.
                       getResource net2 opts (w1\<lparr>heap := mutate (heap w1) a1 x\<rparr>) lang ns
                         = (Inr a2, w2)
                       \<and> deref (heap w2) a2 = deref (heap w1) a1
                       \<and> a2 \<noteq> a1
                       \<and> deref (heap w2) a1 = x
                       \<and> (\<forall>y. deref (mutate (heap w2) a2 y) a1 = x
                              \<and> (\<forall>k. cached (w2\<lparr>heap := mutate (heap w2) a2 y\<rparr>) k
                                        = cached w k))" for x
    proof -
      let ?m = "w1\<lparr>heap := mutate (heap w1) a1 x\<rparr>"
      have hm: "heap ?m = heap w @ [x]" unfolding a1 w1 by (simp add: mutate_def)
      have cm: "cached ?m k = cached w k" for k
        using p6 cached_extend_wf [OF wf, of "[v]" k] unfolding w1 by simp
      have wfm: "cache_wf ?m" using cache_wf_mutate [OF wf1] .
      have tm: "truthy (cached ?m ?k)" using cm hit by simp
      obtain v' where v': "jsonCopy (cached ?m ?k) = Some v'"
        and g2: "getResource net2 opts ?m lang ns
                   = (Inr (length (heap ?m)), ?m\<lparr>heap := heap ?m @ [v']\<rparr>)"
        using getResource_hit [OF en tm] by blast
      have vv: "v' = v" using v v' cm by simp
      let ?a2 = "length (heap ?m)"
      let ?w2 = "?m\<lparr>heap := heap ?m @ [v']\<rparr>"
      have h2: "heap ?w2 = heap w @ [x, v]" using hm vv by simp
      have a2: "?a2 = Suc (length (heap w))" using hm by simp
      have q1: "deref (heap ?w2) ?a2 = deref (heap w1) a1"
        using d1 h2 a2 by (simp add: deref_def nth_append)
      have q2: "?a2 \<noteq> a1" using a2 a1 by simp
      have q3: "deref (heap ?w2) a1 = x" using h2 a1 by (simp add: deref_def nth_append)
      from getResource_fresh [OF wfm g2]
      have fr2: "\<forall>k c. cache ?w2 k = Some c \<longrightarrow> c \<noteq> ?a2" by blast
      have q4: "deref (mutate (heap ?w2) ?a2 y) a1 = x
                \<and> (\<forall>k. cached (?w2\<lparr>heap := mutate (heap ?w2) ?a2 y\<rparr>) k = cached w k)"
        for y
      proof -
        have "deref (mutate (heap ?w2) ?a2 y) a1 = x"
          using q2 q3 deref_mutate_other [of a1 ?a2 "heap ?w2" y] by simp
        moreover have "cached (?w2\<lparr>heap := mutate (heap ?w2) ?a2 y\<rparr>) k = cached w k" for k
          using cached_mutate_fresh [OF fr2, of y k] cached_extend_wf [OF wfm, of "[v']" k]
            cm [of k]
          by simp
        ultimately show ?thesis by blast
      qed
      show ?thesis using g2 q1 q2 q3 q4 by blast
    qed
    show ?thesis using v d1 c1 second by simp
  qed
  show ?thesis
    using g f1 f2 f3 p5 p6 p7 p8 by blast
qed

theorem getResource_independent_copies_witness:
  "cache_wf \<lparr>cache = [''en.t'' \<mapsto> 0], heap = [VObj [(''a'', VNum 1)]], fetched = [],
            waits = []\<rparr>
   \<and> cacheEnabled (defaultOptions ''http://h'')
   \<and> truthy (cached \<lparr>cache = [''en.t'' \<mapsto> 0], heap = [VObj [(''a'', VNum 1)]],
                      fetched = [], waits = []\<rparr> (getCacheKey ''en'' ''t''))
   \<and> (\<exists>a1 w1.
         getResource (\<lambda>i req. Fails AbortError) (defaultOptions ''http://h'')
           \<lparr>cache = [''en.t'' \<mapsto> 0], heap = [VObj [(''a'', VNum 1)]], fetched = [],
            waits = []\<rparr> ''en'' ''t'' = (Inr a1, w1)
         \<and> 1 \<le> a1
         \<and> deref (heap w1) a1 = VObj [(''a'', VNum 1)]
         \<and> (\<exists>a2 w2.
               getResource (\<lambda>i req. Fails AbortError) (defaultOptions ''http://h'')
                 (w1\<lparr>heap := mutate (heap w1) a1 (VObj [(''a'', VNum 2)])\<rparr>) ''en'' ''t''
                 = (Inr a2, w2)
               \<and> a2 \<noteq> a1
               \<and> deref (heap w2) a2 = VObj [(''a'', VNum 1)]
               \<and> deref (heap w2) a1 = VObj [(''a'', VNum 2)]))"
proof -
  let ?w = "\<lparr>cache = [''en.t'' \<mapsto> 0], heap = [VObj [(''a'', VNum 1)]], fetched = [],
            waits = []\<rparr>"
  let ?opts = "defaultOptions ''http://h''"
  let ?net = "\<lambda>(i::nat) (req::request). Fails AbortError"
  have h1: "cache_wf ?w" by (simp add: cache_wf_def)
  have h2: "cacheEnabled ?opts" by (simp add: defaultOptions_def)
  have c: "cached ?w (getCacheKey ''en'' ''t'') = VObj [(''a'', VNum 1)]"
    by (simp add: cached_def getCacheKey_def deref_def)
  have h3: "truthy (cached ?w (getCacheKey ''en'' ''t''))" using c by simp
  have j: "jsonCopy (cached ?w (getCacheKey ''en'' ''t'')) = Some (VObj [(''a'', VNum 1)])"
    using c by (simp add: jsonCopy_def)
  from getResource_independent_copies [OF h1, of ?net ?opts "''en''" "''t''" ?net] h2 h3
  obtain a1 w1 where g: "getResource ?net ?opts ?w ''en'' ''t'' = (Inr a1, w1)"
    and l: "length (heap ?w) \<le> a1"
    and d: "jsonCopy (cached ?w (getCacheKey ''en'' ''t'')) = Some (deref (heap w1) a1)"
    and s: "\<forall>x. \<exists>a2 w2.
              getResource ?net ?opts (w1\<lparr>heap := mutate (heap w1) a1 x\<rparr>) ''en'' ''t''
                = (Inr a2, w2)
              \<and> deref (heap w2) a2 = deref (heap w1) a1
              \<and> a2 \<noteq> a1
              \<and> deref (heap w2) a1 = x
              \<and> (\<forall>y. deref (mutate (heap w2) a2 y) a1 = x
                     \<and> (\<forall>k. cached (w2\<lparr>heap := mutate (heap w2) a2 y\<rparr>) k = cached ?w k))"
    by blast
  have d1: "deref (heap w1) a1 = VObj [(''a'', VNum 1)]" using d j by simp
  have l1: "1 \<le> a1" using l by simp
  from s obtain a2 w2 where
    "getResource ?net ?opts (w1\<lparr>heap := mutate (heap w1) a1 (VObj [(''a'', VNum 2)])\<rparr>)
       ''en'' ''t'' = (Inr a2, w2)"
    "deref (heap w2) a2 = deref (heap w1) a1" "a2 \<noteq> a1"
    "deref (heap w2) a1 = VObj [(''a'', VNum 2)]"
    by blast
  then show ?thesis using h1 h2 h3 g l1 d1 by auto
qed

end
